theory Spec2Isabelle
  imports Main "HOL-Library.Word"
begin

unbundle bit_operations_syntax

section \<open>Transport addresses of libjuice (\<open>src/addr.c\<close>)\<close>

text \<open>
  \<open>addr.c\<close> works on socket addresses through pointer casts: a
  \<open>struct sockaddr *\<close> is read as a \<open>struct sockaddr_in *\<close> or a
  \<open>struct sockaddr_in6 *\<close> according to its family tag, and the two conversion
  functions rewrite one structure over the storage of the other. The embedding
  therefore keeps an address as the code has it: a buffer of bytes, with every
  field read and written at its offset.

  The structures, the family constants, \<open>htons\<close>/\<open>ntohs\<close> and the
  \<open>IN6_IS_ADDR_*\<close> macros come from the platform headers, not from this
  repository. They are fixed here to Linux on a little-endian machine
  (x86-64, glibc): multi-byte integer fields are stored least significant byte
  first, and the port is kept in network byte order inside its field.
  Warnings sent to the logger (\<open>JLOG_WARN\<close>) have no effect on any value
  and are left out.
\<close>

subsection \<open>Memory\<close>

type_synonym byte = "8 word"

text \<open>\<open>socklen_t\<close> is an unsigned 32-bit integer.\<close>

type_synonym socklen_t = "32 word"

text \<open>
  The \<open>n\<close> bytes found at offset \<open>p\<close> of a buffer, read one by one as a C
  program reads them. Inside the buffer this is \<open>take n (drop p m)\<close>; a read
  past the end of the buffer is undefined behaviour in C and an unspecified
  byte here.
\<close>

definition mem_bytes :: "byte list \<Rightarrow> nat \<Rightarrow> nat \<Rightarrow> byte list" where
  "mem_bytes m p n = map (\<lambda>i. m ! (p + i)) [0..<n]"

text \<open>
  \<open>memcpy(m + p, src, length src)\<close>: the bytes of \<open>src\<close> are stored from offset
  \<open>p\<close> on. The buffer keeps its size; a store past its end (undefined
  behaviour in C) is dropped, so every theorem below that depends on a store
  asks for a buffer that is large enough.
\<close>

fun memcpy :: "byte list \<Rightarrow> nat \<Rightarrow> byte list \<Rightarrow> byte list" where
  "memcpy m p [] = m"
| "memcpy m p (b # bs) = memcpy (m[p := b]) (Suc p) bs"

text \<open>\<open>memset(m + p, c, n)\<close>.\<close>

definition memset :: "byte list \<Rightarrow> nat \<Rightarrow> byte \<Rightarrow> nat \<Rightarrow> byte list" where
  "memset m p c n = memcpy m p (replicate n c)"

text \<open>
  \<open>memcmp(xs, ys, n)\<close> on two runs of \<open>n\<close> bytes: zero when they agree, else
  the difference of the first two bytes that differ, read as unsigned.
\<close>

fun memcmp :: "byte list \<Rightarrow> byte list \<Rightarrow> int" where
  "memcmp (x # xs) (y # ys) = (if x = y then memcmp xs ys else uint x - uint y)"
| "memcmp xs ys = 0"

text \<open>A 16-bit field at offset \<open>p\<close>, least significant byte first.\<close>

definition load16 :: "byte list \<Rightarrow> nat \<Rightarrow> 16 word" where
  "load16 m p = ucast (m ! p) OR push_bit 8 (ucast (m ! Suc p))"

definition store16 :: "byte list \<Rightarrow> nat \<Rightarrow> 16 word \<Rightarrow> byte list" where
  "store16 m p v = m[p := ucast v, Suc p := ucast (drop_bit 8 v)]"

text \<open>
  On a little-endian machine \<open>htons\<close> and \<open>ntohs\<close> both exchange the two
  bytes of their argument.
\<close>

definition htons :: "16 word \<Rightarrow> 16 word" where
  "htons v = push_bit 8 v OR drop_bit 8 v"

definition ntohs :: "16 word \<Rightarrow> 16 word" where
  "ntohs v = push_bit 8 v OR drop_bit 8 v"

subsection \<open>Platform constants and structure layouts\<close>

text \<open>
  Modelled from the spec: the address families are the enumeration
  IPv4, IPv6, anything else; the numbers are those of the Linux headers.
\<close>

definition AF_UNSPEC :: int where "AF_UNSPEC = 0"
definition AF_INET :: int where "AF_INET = 2"
definition AF_INET6 :: int where "AF_INET6 = 10"
definition SOCK_DGRAM :: int where "SOCK_DGRAM = 2"
definition IPPROTO_UDP :: int where "IPPROTO_UDP = 17"
definition AI_ADDRCONFIG :: int where "AI_ADDRCONFIG = 32"

text \<open>
  Modelled from the spec: the sizes of the address structures are fixed
  constants. On Linux:

  \<^item> \<open>struct sockaddr_in\<close>, 16 bytes: \<open>sin_family\<close> at 0 (2 bytes),
    \<open>sin_port\<close> at 2 (2 bytes), \<open>sin_addr\<close> at 4 (4 bytes), padding at 8;
  \<^item> \<open>struct sockaddr_in6\<close>, 28 bytes: \<open>sin6_family\<close> at 0 (2 bytes),
    \<open>sin6_port\<close> at 2 (2 bytes), \<open>sin6_flowinfo\<close> at 4 (4 bytes),
    \<open>sin6_addr\<close> at 8 (16 bytes), \<open>sin6_scope_id\<close> at 24 (4 bytes);
  \<^item> \<open>struct sockaddr_storage\<close>, 128 bytes, \<open>ss_family\<close> at 0.
\<close>

definition sizeof_sockaddr_in :: nat where "sizeof_sockaddr_in = 16"
definition sizeof_sockaddr_in6 :: nat where "sizeof_sockaddr_in6 = 28"

definition off_sin_port :: nat where "off_sin_port = 2"
definition off_sin_addr :: nat where "off_sin_addr = 4"
definition off_sin6_port :: nat where "off_sin6_port = 2"
definition off_sin6_addr :: nat where "off_sin6_addr = 8"

type_synonym sockaddr = "byte list"

text \<open>\<open>sa->sa_family\<close>, the same two bytes under all three structure types.\<close>

definition sa_family :: "sockaddr \<Rightarrow> 16 word" where
  "sa_family sa = load16 sa 0"

definition set_family :: "sockaddr \<Rightarrow> int \<Rightarrow> sockaddr" where
  "set_family sa f = store16 sa 0 (word_of_int f)"

definition sin_port :: "sockaddr \<Rightarrow> 16 word" where
  "sin_port sa = load16 sa off_sin_port"

definition sin6_port :: "sockaddr \<Rightarrow> 16 word" where
  "sin6_port sa = load16 sa off_sin6_port"

text \<open>The address bytes of the two structures.\<close>

definition sin_addr :: "sockaddr \<Rightarrow> byte list" where
  "sin_addr sa = mem_bytes sa off_sin_addr 4"

definition sin6_addr :: "sockaddr \<Rightarrow> byte list" where
  "sin6_addr sa = mem_bytes sa off_sin6_addr 16"

text \<open>
  Modelled from the spec: the three \<open>IN6_IS_ADDR_*\<close> macros of
  \<open><netinet/in.h>\<close>, applied to the 16 bytes at offset \<open>p\<close>. The loopback
  address is \<open>::1\<close>; a link-local address lies in the standard prefix
  \<open>fe80::/10\<close>; an IPv4-mapped address starts with 10 zero bytes and 2 bytes
  of \<open>0xFF\<close>.
\<close>

definition IN6_IS_ADDR_LOOPBACK :: "byte list \<Rightarrow> nat \<Rightarrow> bool" where
  "IN6_IS_ADDR_LOOPBACK m p = (mem_bytes m p 16 = replicate 15 0 @ [1])"

definition IN6_IS_ADDR_LINKLOCAL :: "byte list \<Rightarrow> nat \<Rightarrow> bool" where
  "IN6_IS_ADDR_LINKLOCAL m p = (m ! p = 0xFE \<and> (m ! (p + 1)) AND 0xC0 = 0x80)"

definition IN6_IS_ADDR_V4MAPPED :: "byte list \<Rightarrow> nat \<Rightarrow> bool" where
  "IN6_IS_ADDR_V4MAPPED m p = (mem_bytes m p 12 = replicate 10 0 @ [0xFF, 0xFF])"

subsection \<open>Accessors dispatching on the family\<close>

text \<open>
  The \<open>switch (sa->sa_family)\<close> compares the 16-bit tag, promoted to
  \<open>int\<close>, with the family constants.
\<close>

definition addr_get_len :: "sockaddr \<Rightarrow> socklen_t" where
  "addr_get_len sa =
     (if uint (sa_family sa) = AF_INET then of_nat sizeof_sockaddr_in
      else if uint (sa_family sa) = AF_INET6 then of_nat sizeof_sockaddr_in6
      else 0)"

definition addr_get_port :: "sockaddr \<Rightarrow> 16 word" where
  "addr_get_port sa =
     (if uint (sa_family sa) = AF_INET then ntohs (sin_port sa)
      else if uint (sa_family sa) = AF_INET6 then ntohs (sin6_port sa)
      else 0)"

text \<open>\<open>addr_set_port\<close> returns its \<open>int\<close> result and the buffer after the call.\<close>

definition addr_set_port :: "sockaddr \<Rightarrow> 16 word \<Rightarrow> int \<times> sockaddr" where
  "addr_set_port sa port =
     (if uint (sa_family sa) = AF_INET then (0, store16 sa off_sin_port (htons port))
      else if uint (sa_family sa) = AF_INET6 then (0, store16 sa off_sin6_port (htons port))
      else (- 1, sa))"

subsection \<open>Local and temporary addresses\<close>

definition addr_is_local :: "sockaddr \<Rightarrow> bool" where
  "addr_is_local sa =
     (if uint (sa_family sa) = AF_INET then
        (let b = off_sin_addr in
         if sa ! (b + 0) = 127 then True
         else if sa ! (b + 0) = 169 \<and> sa ! (b + 1) = 254 then True
         else False)
      else if uint (sa_family sa) = AF_INET6 then
        (if IN6_IS_ADDR_LOOPBACK sa off_sin6_addr then True
         else if IN6_IS_ADDR_LINKLOCAL sa off_sin6_addr then True
         else if IN6_IS_ADDR_V4MAPPED sa off_sin6_addr then
           (let b = off_sin6_addr + 12 in
            if sa ! (b + 0) = 127 then True
            else if sa ! (b + 0) = 169 \<and> sa ! (b + 1) = 254 then True
            else False)
         else False)
      else False)"

definition addr_is_temp_inet6 :: "sockaddr \<Rightarrow> bool" where
  "addr_is_temp_inet6 sa =
     (if uint (sa_family sa) \<noteq> AF_INET6 then False
      else if addr_is_local sa then False
      else (let b = off_sin6_addr in
            if (sa ! (b + 8)) AND 0x02 \<noteq> 0 then False else True))"

subsection \<open>IPv4-mapped IPv6 addresses\<close>

text \<open>
  Both conversions take a snapshot of the structure (\<open>copy = *sin6\<close>,
  \<open>copy = *sin\<close>) before they clear and rewrite the same storage, and
  return their \<open>bool\<close> result with the buffer and the length after the call.
\<close>

definition addr_unmap_inet6_v4mapped ::
    "sockaddr \<Rightarrow> socklen_t \<Rightarrow> bool \<times> sockaddr \<times> socklen_t" where
  "addr_unmap_inet6_v4mapped sa len =
     (if uint (sa_family sa) \<noteq> AF_INET6 then (False, sa, len)
      else if \<not> IN6_IS_ADDR_V4MAPPED sa off_sin6_addr then (False, sa, len)
      else
        (let copy = mem_bytes sa 0 sizeof_sockaddr_in6;
             sin = memset sa 0 0 sizeof_sockaddr_in;
             sin = set_family sin AF_INET;
             sin = store16 sin off_sin_port (sin6_port copy);
             sin = memcpy sin off_sin_addr (mem_bytes copy (off_sin6_addr + 12) 4)
         in (True, sin, of_nat sizeof_sockaddr_in)))"

definition addr_map_inet6_v4mapped ::
    "sockaddr \<Rightarrow> socklen_t \<Rightarrow> bool \<times> sockaddr \<times> socklen_t" where
  "addr_map_inet6_v4mapped ss len =
     (if uint (sa_family ss) \<noteq> AF_INET then (False, ss, len)
      else
        (let copy = mem_bytes ss 0 sizeof_sockaddr_in;
             sin6 = memset ss 0 0 sizeof_sockaddr_in6;
             sin6 = set_family sin6 AF_INET6;
             sin6 = store16 sin6 off_sin6_port (sin_port copy);
             b = off_sin6_addr;
             sin6 = memset sin6 b 0 10;
             sin6 = memset sin6 (b + 10) 0xFF 2;
             sin6 = memcpy sin6 (b + 12) (mem_bytes copy off_sin_addr 4)
         in (True, sin6, of_nat sizeof_sockaddr_in6)))"

subsection \<open>Equality\<close>

definition addr_is_equal :: "sockaddr \<Rightarrow> sockaddr \<Rightarrow> bool \<Rightarrow> bool" where
  "addr_is_equal a b compare_ports =
     (if sa_family a \<noteq> sa_family b then False
      else if uint (sa_family a) = AF_INET then
        (if memcmp (mem_bytes a off_sin_addr 4) (mem_bytes b off_sin_addr 4) \<noteq> 0 then False
         else if compare_ports \<and> sin_port a \<noteq> sin_port b then False
         else True)
      else if uint (sa_family a) = AF_INET6 then
        (if memcmp (mem_bytes a off_sin6_addr 16) (mem_bytes b off_sin6_addr 16) \<noteq> 0 then False
         else if compare_ports \<and> sin6_port a \<noteq> sin6_port b then False
         else True)
      else False)"

subsection \<open>Name resolution\<close>

text \<open>
  Modelled from the spec: \<open>addr_record_t\<close> is declared in \<open>addr.h\<close>, which is
  not among the sources; a resolution record is the encoded address bytes
  (a \<open>struct sockaddr_storage\<close>) with the number of valid bytes.
\<close>

record addr_record =
  addr :: sockaddr
  len :: socklen_t

text \<open>
  The fields of the platform's \<open>struct addrinfo\<close> that the code sets or
  reads. The \<open>ai_next\<close> chain that \<open>getaddrinfo\<close> returns is a list.
\<close>

record addrinfo =
  ai_flags :: int
  ai_family :: int
  ai_socktype :: int
  ai_protocol :: int
  ai_addrlen :: socklen_t
  ai_addr :: "byte list"

text \<open>
  The platform resolver is a parameter of the model: from the host name, the
  service and the hints it gives the \<open>int\<close> that \<open>getaddrinfo\<close> returns
  (zero on success) and the list it stores in \<open>ai_list\<close>.
\<close>

type_synonym resolver = "string \<Rightarrow> string \<Rightarrow> addrinfo \<Rightarrow> int \<times> addrinfo list"

text \<open>The hints: cleared by \<open>memset\<close>, then four fields set.\<close>

definition resolve_hints :: addrinfo where
  "resolve_hints =
     \<lparr>ai_flags = AI_ADDRCONFIG, ai_family = AF_UNSPEC, ai_socktype = SOCK_DGRAM,
      ai_protocol = IPPROTO_UDP, ai_addrlen = 0, ai_addr = []\<rparr>"

text \<open>
  Modelled from the spec: the layout of \<open>addr_record_t\<close>. With the Linux
  structures it takes 136 bytes: \<open>addr\<close> at offset 0 (128 bytes), \<open>len\<close> at
  offset 128 (4 bytes, least significant byte first) and 4 bytes of padding.
  The caller's array is a run of such records, one after the other.
\<close>

definition sizeof_addr_record :: nat where "sizeof_addr_record = 136"
definition off_addr :: nat where "off_addr = 0"
definition off_len :: nat where "off_len = 128"

text \<open>Byte \<open>k\<close> of a \<open>socklen_t\<close> in memory replaced by \<open>b\<close>.\<close>

definition set_len_byte :: "socklen_t \<Rightarrow> nat \<Rightarrow> byte \<Rightarrow> socklen_t" where
  "set_len_byte w k b = (w AND NOT (push_bit (8 * k) 0xFF)) OR push_bit (8 * k) (ucast b)"

text \<open>
  One byte stored at byte offset \<open>a\<close> of the array: it lands in the record
  \<open>a div 136\<close>, in its address, in its length or in its padding. Only a
  store past the end of the whole array is dropped.
\<close>

definition store_byte :: "addr_record list \<Rightarrow> nat \<Rightarrow> byte \<Rightarrow> addr_record list" where
  "store_byte out a b =
     (let q = a div sizeof_addr_record; off = a mod sizeof_addr_record in
      if length out \<le> q then out
      else if off < off_len
        then out[q := (out ! q)\<lparr>addr := (addr (out ! q))[off - off_addr := b]\<rparr>]
      else if off < off_len + 4
        then out[q := (out ! q)\<lparr>len := set_len_byte (len (out ! q)) (off - off_len) b\<rparr>]
      else out)"

text \<open>
  \<open>memcpy\<close> into the array from byte offset \<open>a\<close> on. Nothing stops it at
  the end of a record: bytes that do not fit in the 128 bytes of an address
  run on into the length of that record and into the records after it.
\<close>

fun memcpy_records :: "addr_record list \<Rightarrow> nat \<Rightarrow> byte list \<Rightarrow> addr_record list" where
  "memcpy_records out a [] = out"
| "memcpy_records out a (b # bs) = memcpy_records (store_byte out a b) (Suc a) bs"

text \<open>
  The body of \<open>if (records != end)\<close> for the record at index \<open>p\<close>:
  \<open>ai_addrlen\<close> bytes of the candidate are copied to \<open>&records->addr\<close>,
  then \<open>ai_addrlen\<close> is stored in \<open>records->len\<close>.
\<close>

definition store_candidate :: "addr_record list \<Rightarrow> nat \<Rightarrow> addrinfo \<Rightarrow> addr_record list" where
  "store_candidate out p ai =
     (let out = memcpy_records out (p * sizeof_addr_record + off_addr)
                  (mem_bytes (ai_addr ai) 0 (unat (ai_addrlen ai)))
      in out[p := (out ! p)\<lparr>len := ai_addrlen ai\<rparr>])"

text \<open>
  The \<open>for\<close> loop over the candidates. The pointers \<open>records\<close> and
  \<open>end\<close> are indices \<open>p\<close> and \<open>e\<close> into the caller's array \<open>out\<close>. The
  counter \<open>ret\<close> is a C \<open>int\<close>, a 32-bit word read as a signed number.
  Signed overflow has no defined result in C; \<open>++ret\<close> wraps around here,
  and the theorem about the loop is stated for counts up to \<open>INT_MAX\<close>.
\<close>

type_synonym c_int = "32 word"


fun resolve_loop ::
    "addrinfo list \<Rightarrow> addr_record list \<Rightarrow> nat \<Rightarrow> nat \<Rightarrow> c_int \<Rightarrow> c_int \<times> addr_record list" where
  "resolve_loop [] out p e ret = (ret, out)"
| "resolve_loop (ai # ais) out p e ret =
     (if ai_family ai = AF_INET \<or> ai_family ai = AF_INET6 then
        (if p \<noteq> e
         then resolve_loop ais (store_candidate out p ai) (Suc p) e (ret + 1)
         else resolve_loop ais out p e (ret + 1))
      else resolve_loop ais out p e ret)"

definition addr_resolve ::
    "resolver \<Rightarrow> string \<Rightarrow> string \<Rightarrow> addr_record list \<Rightarrow> nat \<Rightarrow> int \<times> addr_record list" where
  "addr_resolve getaddrinfo hostname service records count =
     (case getaddrinfo hostname service resolve_hints of
        (rc, ai_list) \<Rightarrow>
          if rc \<noteq> 0 then (- 1, records)
          else (case resolve_loop ai_list records 0 (0 + count) 0 of
                  (ret, out) \<Rightarrow> (sint ret, out)))"


subsection \<open>Sample records\<close>

text \<open>
  Four buffers of the size of a \<open>struct sockaddr_storage\<close>, used where a
  theorem is applied to concrete data: 192.0.2.1 port 80, 2001:db8::1 port 80,
  the IPv4-mapped \<open>::ffff:192.0.2.1\<close> port 80, and a cleared buffer, whose
  family is \<open>AF_UNSPEC\<close>.
\<close>

definition sample_ipv4 :: sockaddr where
  "sample_ipv4 = [2, 0, 0, 80, 192, 0, 2, 1] @ replicate 120 0"

definition sample_ipv6 :: sockaddr where
  "sample_ipv6 =
     [10, 0, 0, 80, 0, 0, 0, 0, 0x20, 0x01, 0x0D, 0xB8, 0, 0, 0, 0, 0, 0, 0, 0, 0, 0, 0, 1]
     @ replicate 104 0"

definition sample_mapped :: sockaddr where
  "sample_mapped =
     [10, 0, 0, 80, 0, 0, 0, 0, 0, 0, 0, 0, 0, 0, 0, 0, 0, 0, 0xFF, 0xFF, 192, 0, 2, 1]
     @ replicate 104 0"

definition sample_unspec :: sockaddr where
  "sample_unspec = replicate 128 0"

text \<open>
  A resolver that knows one host: for \<open>localhost\<close> it answers with four
  candidates, the second of them of family \<open>AF_UNIX\<close>, and it fails with
  \<open>EAI_NONAME\<close> for every other name. The caller's array has two records.
\<close>

definition sample_candidates :: "addrinfo list" where
  "sample_candidates =
     [\<lparr>ai_flags = 0, ai_family = AF_INET6, ai_socktype = SOCK_DGRAM, ai_protocol = IPPROTO_UDP,
       ai_addrlen = 28, ai_addr = take 28 sample_ipv6\<rparr>,
      \<lparr>ai_flags = 0, ai_family = 1, ai_socktype = SOCK_DGRAM, ai_protocol = 0,
       ai_addrlen = 2, ai_addr = [1, 0]\<rparr>,
      \<lparr>ai_flags = 0, ai_family = AF_INET, ai_socktype = SOCK_DGRAM, ai_protocol = IPPROTO_UDP,
       ai_addrlen = 16, ai_addr = take 16 sample_ipv4\<rparr>,
      \<lparr>ai_flags = 0, ai_family = AF_INET6, ai_socktype = SOCK_DGRAM, ai_protocol = IPPROTO_UDP,
       ai_addrlen = 28, ai_addr = take 28 sample_mapped\<rparr>]"

definition sample_getaddrinfo :: resolver where
  "sample_getaddrinfo hostname service hints =
     (if hostname = ''localhost'' then (0, sample_candidates) else (- 2, []))"

definition sample_records :: "addr_record list" where
  "sample_records = replicate 2 \<lparr>addr = sample_unspec, len = 0\<rparr>"




section \<open>Properties\<close>

subsection \<open>Memory lemmas\<close>

lemma length_memcpy [simp]: "length (memcpy m p bs) = length m"
  by (induction bs arbitrary: m p) simp_all

lemma nth_memcpy:
  "memcpy m p bs ! i = (if p \<le> i \<and> i < p + length bs \<and> i < length m then bs ! (i - p) else m ! i)"
proof (induction bs arbitrary: m p)
  case Nil
  show ?case by auto
next
  case (Cons b bs)
  show ?case
    unfolding memcpy.simps Cons.IH
    by (cases "p < length m") (auto simp: nth_list_update nth_Cons' list_update_beyond)
qed

lemma length_memset [simp]: "length (memset m p c n) = length m"
  by (simp add: memset_def)

lemma nth_memset:
  "memset m p c n ! i = (if p \<le> i \<and> i < p + n \<and> i < length m then c else m ! i)"
  by (auto simp: memset_def nth_memcpy)

lemma length_store16 [simp]: "length (store16 m p v) = length m"
  by (simp add: store16_def)

lemma nth_store16:
  "store16 m p v ! i =
     (if i = Suc p \<and> i < length m then ucast (drop_bit 8 v)
      else if i = p \<and> i < length m then ucast v else m ! i)"
  by (cases "p < length m"; cases "Suc p < length m")
     (auto simp: store16_def nth_list_update list_update_beyond)

lemma split16:
  "(ucast (ucast (v :: 16 word) :: byte) :: 16 word)
     OR push_bit 8 (ucast (ucast (drop_bit 8 v) :: byte)) = v"
  by (rule bit_word_eqI) (auto simp: bit_simps)

lemma load16_store16: "Suc p < length m \<Longrightarrow> load16 (store16 m p v) p = v"
  by (simp add: load16_def nth_store16 split16)

lemma sa_family_store16_port [simp]: "sa_family (store16 sa 2 v) = sa_family sa"
  by (simp add: sa_family_def load16_def nth_store16)

lemma ntohs_htons: "ntohs (htons v) = v"
  unfolding htons_def ntohs_def
  by (rule bit_word_eqI) (auto simp: bit_simps)

lemma load16_low: "ucast (load16 m p) = m ! p"
  unfolding load16_def by (rule bit_word_eqI) (auto simp: bit_simps)

lemma load16_high: "ucast (drop_bit 8 (load16 m p)) = m ! Suc p"
  unfolding load16_def
  by (rule bit_word_eqI) (auto simp: bit_simps dest: bit_imp_le_length)

lemma load16_eq_iff:
  "load16 a p = load16 b q \<longleftrightarrow> a ! p = b ! q \<and> a ! Suc p = b ! Suc q"
proof
  assume h: "load16 a p = load16 b q"
  have "a ! p = ucast (load16 a p)" by (simp add: load16_low)
  moreover have "a ! Suc p = ucast (drop_bit 8 (load16 a p))" by (simp add: load16_high)
  ultimately show "a ! p = b ! q \<and> a ! Suc p = b ! Suc q"
    by (simp add: h load16_low load16_high)
next
  assume "a ! p = b ! q \<and> a ! Suc p = b ! Suc q"
  then show "load16 a p = load16 b q" by (simp add: load16_def)
qed

lemma length_mem_bytes [simp]: "length (mem_bytes m p n) = n"
  by (simp add: mem_bytes_def)

lemma nth_mem_bytes [simp]: "i < n \<Longrightarrow> mem_bytes m p n ! i = m ! (p + i)"
  by (simp add: mem_bytes_def)


lemma mem_bytes_eq_iff:
  "mem_bytes a p n = mem_bytes b q n \<longleftrightarrow> (\<forall>i<n. a ! (p + i) = b ! (q + i))"
  by (auto simp: list_eq_iff_nth_eq)

lemma uint_byte_eq_iff: "uint (x :: byte) = uint y \<longleftrightarrow> x = y"
  by (simp add: word_uint_eq_iff)

lemma memcmp_eq_0_iff: "length xs = length ys \<Longrightarrow> memcmp xs ys = 0 \<longleftrightarrow> xs = ys"
proof (induction xs ys rule: list_induct2)
  case Nil
  show ?case by simp
next
  case (Cons x xs y ys)
  then show ?case by (simp add: uint_byte_eq_iff)
qed

lemmas family_simps = sa_family_def load16_def AF_INET_def AF_INET6_def

lemmas sample_simps = sample_ipv4_def sample_ipv6_def sample_mapped_def sample_unspec_def

subsection \<open>Layout lemmas\<close>

lemmas layout_simps = sizeof_sockaddr_in_def sizeof_sockaddr_in6_def off_sin_port_def
  off_sin_addr_def off_sin6_port_def off_sin6_addr_def

lemma map_buffer_nth:
  assumes "uint (sa_family ss) = AF_INET" and "sizeof_sockaddr_in6 \<le> length ss"
  shows "addr_map_inet6_v4mapped ss l =
           (True, fst (snd (addr_map_inet6_v4mapped ss l)), of_nat sizeof_sockaddr_in6)"
    and "length (fst (snd (addr_map_inet6_v4mapped ss l))) = length ss"
    and "fst (snd (addr_map_inet6_v4mapped ss l)) ! i =
           (if 28 \<le> i then ss ! i
            else if i = 0 then 10 else if i = 1 then 0
            else if i = 2 then ss ! 2 else if i = 3 then ss ! 3
            else if i < 18 then 0 else if i < 20 then 0xFF
            else if i < 24 then ss ! (i - 16) else 0)"
proof -
  show "addr_map_inet6_v4mapped ss l =
           (True, fst (snd (addr_map_inet6_v4mapped ss l)), of_nat sizeof_sockaddr_in6)"
    using assms by (simp add: addr_map_inet6_v4mapped_def Let_def)
  show "length (fst (snd (addr_map_inet6_v4mapped ss l))) = length ss"
    using assms by (simp add: addr_map_inet6_v4mapped_def Let_def set_family_def)
  show "fst (snd (addr_map_inet6_v4mapped ss l)) ! i =
           (if 28 \<le> i then ss ! i
            else if i = 0 then 10 else if i = 1 then 0
            else if i = 2 then ss ! 2 else if i = 3 then ss ! 3
            else if i < 18 then 0 else if i < 20 then 0xFF
            else if i < 24 then ss ! (i - 16) else 0)"
  proof -
    have ne: "ss \<noteq> []" using assms(2) by (auto simp: sizeof_sockaddr_in6_def)
    have two: "Suc (Suc 0) = 2" by simp
    show ?thesis
      using assms ne
      by (simp add: addr_map_inet6_v4mapped_def Let_def set_family_def layout_simps
        nth_memcpy nth_memset nth_store16 sin_port_def load16_low load16_high AF_INET6_def two)
  qed
qed

lemma unmap_buffer_nth:
  assumes "uint (sa_family sa) = AF_INET6" and "IN6_IS_ADDR_V4MAPPED sa off_sin6_addr"
    and "sizeof_sockaddr_in6 \<le> length sa"
  shows "addr_unmap_inet6_v4mapped sa l =
           (True, fst (snd (addr_unmap_inet6_v4mapped sa l)), of_nat sizeof_sockaddr_in)"
    and "length (fst (snd (addr_unmap_inet6_v4mapped sa l))) = length sa"
    and "fst (snd (addr_unmap_inet6_v4mapped sa l)) ! i =
           (if 16 \<le> i then sa ! i
            else if i = 0 then 2 else if i = 1 then 0
            else if i = 2 then sa ! 2 else if i = 3 then sa ! 3
            else if i < 8 then sa ! (i + 16) else 0)"
proof -
  show "addr_unmap_inet6_v4mapped sa l =
           (True, fst (snd (addr_unmap_inet6_v4mapped sa l)), of_nat sizeof_sockaddr_in)"
    using assms by (simp add: addr_unmap_inet6_v4mapped_def Let_def)
  show "length (fst (snd (addr_unmap_inet6_v4mapped sa l))) = length sa"
    using assms by (simp add: addr_unmap_inet6_v4mapped_def Let_def set_family_def)
  show "fst (snd (addr_unmap_inet6_v4mapped sa l)) ! i =
           (if 16 \<le> i then sa ! i
            else if i = 0 then 2 else if i = 1 then 0
            else if i = 2 then sa ! 2 else if i = 3 then sa ! 3
            else if i < 8 then sa ! (i + 16) else 0)"
  proof -
    have ne: "sa \<noteq> []" using assms(3) by (auto simp: sizeof_sockaddr_in6_def)
    have two: "Suc (Suc 0) = 2" by simp
    show ?thesis
      using assms ne
      by (simp add: addr_unmap_inet6_v4mapped_def Let_def set_family_def layout_simps
        nth_memcpy nth_memset nth_store16 sin6_port_def load16_low load16_high AF_INET_def two
        add.commute)
  qed
qed

lemma family_of_bytes:
  "sa ! 0 = 2 \<Longrightarrow> sa ! 1 = 0 \<Longrightarrow> uint (sa_family sa) = AF_INET"
  "sa ! 0 = 10 \<Longrightarrow> sa ! 1 = 0 \<Longrightarrow> uint (sa_family sa) = AF_INET6"
  by (simp_all add: sa_family_def load16_def AF_INET_def AF_INET6_def)

lemma map_buffer_v4mapped:
  assumes "uint (sa_family ss) = AF_INET" and "sizeof_sockaddr_in6 \<le> length ss"
  shows "IN6_IS_ADDR_V4MAPPED (fst (snd (addr_map_inet6_v4mapped ss l))) off_sin6_addr"
  unfolding IN6_IS_ADDR_V4MAPPED_def
  by (rule nth_equalityI)
     (auto simp: map_buffer_nth(3) [OF assms] off_sin6_addr_def nth_append nth_Cons'
        less_Suc_eq)

lemma v4mapped_byte8:
  assumes "IN6_IS_ADDR_V4MAPPED m p"
  shows "m ! (p + 8) = 0"
proof -
  have "mem_bytes m p 12 ! 8 = (replicate 10 0 @ [0xFF, 0xFF]) ! 8"
    using assms by (simp add: IN6_IS_ADDR_V4MAPPED_def)
  then show ?thesis by (simp add: nth_append)
qed

subsection \<open>Lemmas on the array of records\<close>

lemma length_store_byte [simp]: "length (store_byte out a b) = length out"
  by (simp add: store_byte_def Let_def)

lemma length_memcpy_records [simp]: "length (memcpy_records out a bs) = length out"
  by (induction bs arbitrary: out a) simp_all







subsection \<open>Length of a record\<close>

text \<open>
  C7. For a record whose family is IPv4 or IPv6, \<open>addr_get_len\<close> returns the
  fixed size of that family's address structure (16 bytes for
  \<open>struct sockaddr_in\<close>, 28 bytes for \<open>struct sockaddr_in6\<close>); for a record
  of any other family it returns 0.
\<close>

theorem addr_get_len_sizes:
  "(uint (sa_family sa) = AF_INET \<longrightarrow> unat (addr_get_len sa) = sizeof_sockaddr_in) \<and>
   (uint (sa_family sa) = AF_INET6 \<longrightarrow> unat (addr_get_len sa) = sizeof_sockaddr_in6) \<and>
   (uint (sa_family sa) \<noteq> AF_INET \<and> uint (sa_family sa) \<noteq> AF_INET6 \<longrightarrow> addr_get_len sa = 0)"
  by (simp add: addr_get_len_def AF_INET_def AF_INET6_def sizeof_sockaddr_in_def
      sizeof_sockaddr_in6_def)

theorem addr_get_len_sizes_witness:
  "unat (addr_get_len sample_ipv4) = 16 \<and> unat (addr_get_len sample_ipv6) = 28 \<and>
   addr_get_len sample_unspec = 0"
proof -
  have h4: "uint (sa_family sample_ipv4) = AF_INET"
    by (simp add: family_simps sample_simps)
  have h6: "uint (sa_family sample_ipv6) = AF_INET6"
    by (simp add: family_simps sample_simps)
  have h0: "uint (sa_family sample_unspec) \<noteq> AF_INET \<and> uint (sa_family sample_unspec) \<noteq> AF_INET6"
    by (simp add: family_simps sample_simps)
  have r4: "unat (addr_get_len sample_ipv4) = sizeof_sockaddr_in"
    using addr_get_len_sizes [of sample_ipv4] h4 by blast
  have r6: "unat (addr_get_len sample_ipv6) = sizeof_sockaddr_in6"
    using addr_get_len_sizes [of sample_ipv6] h6 by blast
  have r0: "addr_get_len sample_unspec = 0"
    using addr_get_len_sizes [of sample_unspec] h0 by blast
  show ?thesis
    using r4 r6 r0 by (simp add: sizeof_sockaddr_in_def sizeof_sockaddr_in6_def)
qed

subsection \<open>Port accessors\<close>

text \<open>
  C8 (as amended). For a record whose family is IPv4 or IPv6, held in a buffer
  that is at least as large as the structure of its family, and for every
  16-bit port value, \<open>addr_set_port\<close> succeeds and \<open>addr_get_port\<close> on the
  record it leaves returns that value. For a record of any other family
  \<open>addr_set_port\<close> fails with \<open>-1\<close> and stores nothing, the buffer
  being left as it was, and \<open>addr_get_port\<close> returns 0, whatever the port
  was.
\<close>

theorem set_port_then_get_port:
  assumes "unat (addr_get_len sa) \<le> length sa"
  shows "(uint (sa_family sa) = AF_INET \<or> uint (sa_family sa) = AF_INET6 \<longrightarrow>
            fst (addr_set_port sa port) = 0 \<and>
            addr_get_port (snd (addr_set_port sa port)) = port) \<and>
         (uint (sa_family sa) \<noteq> AF_INET \<and> uint (sa_family sa) \<noteq> AF_INET6 \<longrightarrow>
            fst (addr_set_port sa port) = - 1 \<and>
            snd (addr_set_port sa port) = sa \<and>
            addr_get_port (snd (addr_set_port sa port)) = 0)"
proof -
  have "Suc 2 < length sa"
    if "uint (sa_family sa) = AF_INET \<or> uint (sa_family sa) = AF_INET6"
    using that assms
    by (auto simp: addr_get_len_def sizeof_sockaddr_in_def sizeof_sockaddr_in6_def
        AF_INET_def AF_INET6_def split: if_splits)
  then show ?thesis
    by (auto simp: addr_set_port_def addr_get_port_def off_sin_port_def off_sin6_port_def
        sin_port_def sin6_port_def load16_store16 ntohs_htons)
qed

theorem set_port_then_get_port_witness:
  "addr_get_port (snd (addr_set_port sample_ipv4 65535)) = 65535 \<and>
   addr_get_port (snd (addr_set_port sample_ipv6 1)) = 1 \<and>
   snd (addr_set_port sample_unspec 1) = sample_unspec \<and>
   addr_get_port (snd (addr_set_port sample_unspec 1)) = 0"
proof -
  have l4: "unat (addr_get_len sample_ipv4) \<le> length sample_ipv4"
    by (simp add: addr_get_len_def family_simps sample_simps sizeof_sockaddr_in_def)
  have l6: "unat (addr_get_len sample_ipv6) \<le> length sample_ipv6"
    by (simp add: addr_get_len_def family_simps sample_simps sizeof_sockaddr_in6_def)
  have l0: "unat (addr_get_len sample_unspec) \<le> length sample_unspec"
    by (simp add: addr_get_len_def family_simps sample_simps)
  have h4: "uint (sa_family sample_ipv4) = AF_INET"
    by (simp add: family_simps sample_simps)
  have h6: "uint (sa_family sample_ipv6) = AF_INET6"
    by (simp add: family_simps sample_simps)
  have h0: "uint (sa_family sample_unspec) \<noteq> AF_INET \<and> uint (sa_family sample_unspec) \<noteq> AF_INET6"
    by (simp add: family_simps sample_simps)
  show ?thesis
    using set_port_then_get_port [OF l4, of 65535] set_port_then_get_port [OF l6, of 1]
      set_port_then_get_port [OF l0, of 1] h4 h6 h0
    by blast
qed

text \<open>
  C8 without the restriction to IPv4 and IPv6 fails on a record of family
  \<open>AF_UNSPEC\<close>: nothing is stored, and the port read back is 0, not 1.
\<close>

theorem set_port_unknown_family_counterexample:
  "addr_get_port (snd (addr_set_port sample_unspec 1)) \<noteq> 1"
  by (simp add: addr_set_port_def addr_get_port_def family_simps sample_simps)

text \<open>
  C10. For a record whose family is IPv4 or IPv6, \<open>addr_set_port\<close> returns 0
  and changes nothing but the two bytes of the port field: the buffer keeps
  its size, every byte outside the port field keeps its value, and so do the
  family tag and the address bytes of either structure. For a record of any
  other family it returns \<open>-1\<close> and leaves the whole buffer as it was.
\<close>

theorem addr_set_port_frame:
  "(uint (sa_family sa) = AF_INET \<or> uint (sa_family sa) = AF_INET6 \<longrightarrow>
      (case addr_set_port sa port of (r, sa') \<Rightarrow>
         r = 0 \<and> length sa' = length sa \<and>
         (\<forall>i. i \<noteq> off_sin_port \<and> i \<noteq> off_sin_port + 1 \<longrightarrow> sa' ! i = sa ! i) \<and>
         sa_family sa' = sa_family sa \<and>
         sin_addr sa' = sin_addr sa \<and> sin6_addr sa' = sin6_addr sa)) \<and>
   (uint (sa_family sa) \<noteq> AF_INET \<and> uint (sa_family sa) \<noteq> AF_INET6 \<longrightarrow>
      addr_set_port sa port = (- 1, sa))"
  by (auto simp: addr_set_port_def off_sin_port_def off_sin6_port_def nth_store16
      sin_addr_def sin6_addr_def off_sin_addr_def off_sin6_addr_def mem_bytes_eq_iff)

theorem addr_set_port_frame_witness:
  "(case addr_set_port sample_ipv6 443 of (r, sa') \<Rightarrow>
      r = 0 \<and> length sa' = length sample_ipv6 \<and>
      (\<forall>i. i \<noteq> off_sin_port \<and> i \<noteq> off_sin_port + 1 \<longrightarrow> sa' ! i = sample_ipv6 ! i) \<and>
      sa_family sa' = sa_family sample_ipv6 \<and>
      sin_addr sa' = sin_addr sample_ipv6 \<and> sin6_addr sa' = sin6_addr sample_ipv6) \<and>
   addr_set_port sample_unspec 443 = (- 1, sample_unspec)"
proof -
  have h6: "uint (sa_family sample_ipv6) = AF_INET \<or> uint (sa_family sample_ipv6) = AF_INET6"
    by (simp add: family_simps sample_simps)
  have h0: "uint (sa_family sample_unspec) \<noteq> AF_INET \<and> uint (sa_family sample_unspec) \<noteq> AF_INET6"
    by (simp add: family_simps sample_simps)
  show ?thesis
    using addr_set_port_frame [of sample_ipv6 443, THEN conjunct1, THEN mp, OF h6]
      addr_set_port_frame [of sample_unspec 443, THEN conjunct2, THEN mp, OF h0]
    by (rule conjI)
qed

subsection \<open>Local and temporary addresses\<close>

text \<open>
  C3. \<open>addr_is_local\<close> is true exactly when the family is IPv4 and the first
  address byte is 127 or the first two are 169 and 254, or the family is IPv6
  and the 16 address bytes are the loopback address \<open>::1\<close>, or lie in the
  link-local prefix \<open>fe80::/10\<close>, or start with the IPv4-mapped prefix
  (10 zero bytes, 2 bytes \<open>0xFF\<close>) and their last 4 bytes satisfy the IPv4
  rule. For every other family and every other address it is false.
\<close>

theorem addr_is_local_iff:
  "addr_is_local sa \<longleftrightarrow>
     uint (sa_family sa) = AF_INET \<and>
       (sin_addr sa ! 0 = 127 \<or> sin_addr sa ! 0 = 169 \<and> sin_addr sa ! 1 = 254)
     \<or> uint (sa_family sa) = AF_INET6 \<and>
       (sin6_addr sa = replicate 15 0 @ [1]
        \<or> sin6_addr sa ! 0 = 0xFE \<and> (sin6_addr sa ! 1) AND 0xC0 = 0x80
        \<or> take 12 (sin6_addr sa) = replicate 10 0 @ [0xFF, 0xFF] \<and>
          (drop 12 (sin6_addr sa) ! 0 = 127 \<or>
           drop 12 (sin6_addr sa) ! 0 = 169 \<and> drop 12 (sin6_addr sa) ! 1 = 254))"
proof -
  have t: "take 12 (sin6_addr sa) = mem_bytes sa off_sin6_addr 12"
    by (rule nth_equalityI) (simp_all add: sin6_addr_def)
  show ?thesis
    unfolding t
    by (auto simp: addr_is_local_def sin_addr_def sin6_addr_def IN6_IS_ADDR_LOOPBACK_def
      IN6_IS_ADDR_LINKLOCAL_def IN6_IS_ADDR_V4MAPPED_def AF_INET_def AF_INET6_def Let_def
      off_sin_addr_def off_sin6_addr_def)
qed

theorem addr_is_local_iff_witness:
  "addr_is_local (sample_ipv4[4 := 127]) \<and> \<not> addr_is_local sample_mapped"
proof -
  let ?lo = "sample_ipv4[4 := 127]"
  have p: "uint (sa_family ?lo) = AF_INET \<and>
       (sin_addr ?lo ! 0 = 127 \<or> sin_addr ?lo ! 0 = 169 \<and> sin_addr ?lo ! 1 = 254)
     \<or> uint (sa_family ?lo) = AF_INET6 \<and>
       (sin6_addr ?lo = replicate 15 0 @ [1]
        \<or> sin6_addr ?lo ! 0 = 0xFE \<and> (sin6_addr ?lo ! 1) AND 0xC0 = 0x80
        \<or> take 12 (sin6_addr ?lo) = replicate 10 0 @ [0xFF, 0xFF] \<and>
          (drop 12 (sin6_addr ?lo) ! 0 = 127 \<or>
           drop 12 (sin6_addr ?lo) ! 0 = 169 \<and> drop 12 (sin6_addr ?lo) ! 1 = 254))"
    by code_simp
  have n: "\<not> (uint (sa_family sample_mapped) = AF_INET \<and>
       (sin_addr sample_mapped ! 0 = 127 \<or>
        sin_addr sample_mapped ! 0 = 169 \<and> sin_addr sample_mapped ! 1 = 254)
     \<or> uint (sa_family sample_mapped) = AF_INET6 \<and>
       (sin6_addr sample_mapped = replicate 15 0 @ [1]
        \<or> sin6_addr sample_mapped ! 0 = 0xFE \<and> (sin6_addr sample_mapped ! 1) AND 0xC0 = 0x80
        \<or> take 12 (sin6_addr sample_mapped) = replicate 10 0 @ [0xFF, 0xFF] \<and>
          (drop 12 (sin6_addr sample_mapped) ! 0 = 127 \<or>
           drop 12 (sin6_addr sample_mapped) ! 0 = 169 \<and>
           drop 12 (sin6_addr sample_mapped) ! 1 = 254)))"
    by code_simp
  have w1: "addr_is_local ?lo"
    using p by (rule addr_is_local_iff [THEN iffD2])
  have w2: "\<not> addr_is_local sample_mapped"
    using n addr_is_local_iff [of sample_mapped] by blast
  show ?thesis
    using w1 w2 by (rule conjI)
qed

text \<open>
  C4. \<open>addr_is_temp_inet6\<close> is false when the family is not IPv6 and when
  \<open>addr_is_local\<close> holds; otherwise it is true exactly when bit \<open>0x02\<close> of
  byte 8 of the 16-byte IPv6 address is clear.
\<close>

theorem addr_is_temp_inet6_iff:
  "addr_is_temp_inet6 sa \<longleftrightarrow>
     uint (sa_family sa) = AF_INET6 \<and> \<not> addr_is_local sa \<and> (sin6_addr sa ! 8) AND 0x02 = 0"
  by (simp add: addr_is_temp_inet6_def sin6_addr_def)

theorem addr_is_temp_inet6_iff_witness:
  "addr_is_temp_inet6 sample_ipv6"
proof -
  have "uint (sa_family sample_ipv6) = AF_INET6 \<and> \<not> addr_is_local sample_ipv6 \<and>
      (sin6_addr sample_ipv6 ! 8) AND 0x02 = 0"
    by code_simp
  then show ?thesis
    by (rule addr_is_temp_inet6_iff [THEN iffD2])
qed

text \<open>
  C9. An IPv6 record whose address is IPv4-mapped and which \<open>addr_is_local\<close>
  does not class as local is a temporary address for \<open>addr_is_temp_inet6\<close>:
  byte 8 of a mapped address is zero, so bit \<open>0x02\<close> is clear.
\<close>

theorem v4mapped_not_local_is_temp:
  assumes "uint (sa_family sa) = AF_INET6"
    and "IN6_IS_ADDR_V4MAPPED sa off_sin6_addr"
    and "\<not> addr_is_local sa"
  shows "sin6_addr sa ! 8 = 0 \<and> addr_is_temp_inet6 sa"
  using assms v4mapped_byte8 [of sa off_sin6_addr]
  by (simp add: addr_is_temp_inet6_def sin6_addr_def)

theorem v4mapped_not_local_is_temp_witness:
  "uint (sa_family sample_mapped) = AF_INET6 \<and>
   IN6_IS_ADDR_V4MAPPED sample_mapped off_sin6_addr \<and> \<not> addr_is_local sample_mapped \<and>
   sin6_addr sample_mapped ! 8 = 0 \<and> addr_is_temp_inet6 sample_mapped"
proof -
  have f: "uint (sa_family sample_mapped) = AF_INET6" by code_simp
  have v: "IN6_IS_ADDR_V4MAPPED sample_mapped off_sin6_addr" by code_simp
  have n: "\<not> addr_is_local sample_mapped" by code_simp
  show ?thesis
    using f v n v4mapped_not_local_is_temp [OF f v n] by blast
qed

subsection \<open>IPv4-mapped IPv6 addresses\<close>

text \<open>
  C2. In a buffer with room for a \<open>struct sockaddr_in6\<close>: on an IPv4 record,
  \<open>addr_map_inet6_v4mapped\<close> and then \<open>addr_unmap_inet6_v4mapped\<close> both
  return true and give back an IPv4 record with the original 4 address bytes
  and port, the length being the size of \<open>struct sockaddr_in\<close>; on an
  IPv4-mapped IPv6 record, unmapping and then mapping both return true and
  give back an IPv6 record with the original 16 address bytes and port.
\<close>

theorem v4mapped_round_trip:
  assumes "sizeof_sockaddr_in6 \<le> length sa"
  shows "(uint (sa_family sa) = AF_INET \<longrightarrow>
            (case addr_map_inet6_v4mapped sa l of (r1, sa1, l1) \<Rightarrow>
             case addr_unmap_inet6_v4mapped sa1 l1 of (r2, sa2, l2) \<Rightarrow>
               r1 \<and> r2 \<and> uint (sa_family sa2) = AF_INET \<and>
               sin_addr sa2 = sin_addr sa \<and> sin_port sa2 = sin_port sa \<and>
               unat l2 = sizeof_sockaddr_in)) \<and>
         (uint (sa_family sa) = AF_INET6 \<and> IN6_IS_ADDR_V4MAPPED sa off_sin6_addr \<longrightarrow>
            (case addr_unmap_inet6_v4mapped sa l of (r1, sa1, l1) \<Rightarrow>
             case addr_map_inet6_v4mapped sa1 l1 of (r2, sa2, l2) \<Rightarrow>
               r1 \<and> r2 \<and> uint (sa_family sa2) = AF_INET6 \<and>
               sin6_addr sa2 = sin6_addr sa \<and> sin6_port sa2 = sin6_port sa \<and>
               unat l2 = sizeof_sockaddr_in6))"
proof (intro conjI impI)
  assume f: "uint (sa_family sa) = AF_INET"
  let ?sa1 = "fst (snd (addr_map_inet6_v4mapped sa l))"
  let ?l1 = "of_nat sizeof_sockaddr_in6 :: socklen_t"
  let ?sa2 = "fst (snd (addr_unmap_inet6_v4mapped ?sa1 ?l1))"
  note m = map_buffer_nth [OF f assms, of l]
  have f1: "uint (sa_family ?sa1) = AF_INET6"
    by (rule family_of_bytes) (simp_all add: m(3))
  have len1: "sizeof_sockaddr_in6 \<le> length ?sa1"
    using assms by (simp add: m(2))
  have v1: "IN6_IS_ADDR_V4MAPPED ?sa1 off_sin6_addr"
    by (rule map_buffer_v4mapped [OF f assms])
  note u = unmap_buffer_nth [OF f1 v1 len1, of ?l1]
  have f2: "uint (sa_family ?sa2) = AF_INET"
    by (rule family_of_bytes) (simp_all add: u(3))
  have a2: "sin_addr ?sa2 = sin_addr sa"
    by (simp add: sin_addr_def mem_bytes_eq_iff off_sin_addr_def u(3) m(3))
  have p2: "sin_port ?sa2 = sin_port sa"
    by (simp add: sin_port_def load16_eq_iff off_sin_port_def u(3) m(3))
  show "case addr_map_inet6_v4mapped sa l of (r1, sa1, l1) \<Rightarrow>
          case addr_unmap_inet6_v4mapped sa1 l1 of (r2, sa2, l2) \<Rightarrow>
            r1 \<and> r2 \<and> uint (sa_family sa2) = AF_INET \<and>
            sin_addr sa2 = sin_addr sa \<and> sin_port sa2 = sin_port sa \<and>
            unat l2 = sizeof_sockaddr_in"
    by (subst m(1), simp only: prod.case, subst u(1), simp only: prod.case)
       (simp add: f2 a2 p2 sizeof_sockaddr_in_def)
next
  assume "uint (sa_family sa) = AF_INET6 \<and> IN6_IS_ADDR_V4MAPPED sa off_sin6_addr"
  then have f: "uint (sa_family sa) = AF_INET6"
    and v: "IN6_IS_ADDR_V4MAPPED sa off_sin6_addr" by simp_all
  let ?sa1 = "fst (snd (addr_unmap_inet6_v4mapped sa l))"
  let ?l1 = "of_nat sizeof_sockaddr_in :: socklen_t"
  let ?sa2 = "fst (snd (addr_map_inet6_v4mapped ?sa1 ?l1))"
  note u = unmap_buffer_nth [OF f v assms, of l]
  have f1: "uint (sa_family ?sa1) = AF_INET"
    by (rule family_of_bytes) (simp_all add: u(3))
  have len1: "sizeof_sockaddr_in6 \<le> length ?sa1"
    using assms by (simp add: u(2))
  note m = map_buffer_nth [OF f1 len1, of ?l1]
  have f2: "uint (sa_family ?sa2) = AF_INET6"
    by (rule family_of_bytes) (simp_all add: m(3))
  have prefix: "sa ! (8 + i) = (if i < 10 then 0 else 0xFF)" if "i < 12" for i
  proof -
    have "mem_bytes sa 8 12 ! i = (replicate 10 0 @ [0xFF, 0xFF]) ! i"
      using v by (simp add: IN6_IS_ADDR_V4MAPPED_def off_sin6_addr_def)
    then show ?thesis
      using that by (auto simp: nth_append nth_Cons' less_Suc_eq)
  qed
  have a2: "sin6_addr ?sa2 = sin6_addr sa"
    unfolding sin6_addr_def mem_bytes_eq_iff off_sin6_addr_def
  proof (intro allI impI)
    fix i :: nat
    assume "i < 16"
    show "?sa2 ! (8 + i) = sa ! (8 + i)"
    proof (cases "i < 12")
      case True
      then show ?thesis by (simp add: m(3) prefix)
    next
      case False
      with \<open>i < 16\<close> have "12 \<le> i" and "i - 8 + 16 = 8 + i" by simp_all
      with \<open>i < 16\<close> show ?thesis by (auto simp: m(3) u(3))
    qed
  qed
  have p2: "sin6_port ?sa2 = sin6_port sa"
    by (simp add: sin6_port_def load16_eq_iff off_sin6_port_def u(3) m(3))
  show "case addr_unmap_inet6_v4mapped sa l of (r1, sa1, l1) \<Rightarrow>
          case addr_map_inet6_v4mapped sa1 l1 of (r2, sa2, l2) \<Rightarrow>
            r1 \<and> r2 \<and> uint (sa_family sa2) = AF_INET6 \<and>
            sin6_addr sa2 = sin6_addr sa \<and> sin6_port sa2 = sin6_port sa \<and>
            unat l2 = sizeof_sockaddr_in6"
    by (subst u(1), simp only: prod.case, subst m(1), simp only: prod.case)
       (simp add: f2 a2 p2 sizeof_sockaddr_in6_def)
qed

theorem v4mapped_round_trip_witness:
  "(case addr_map_inet6_v4mapped sample_ipv4 0 of (r1, sa1, l1) \<Rightarrow>
    case addr_unmap_inet6_v4mapped sa1 l1 of (r2, sa2, l2) \<Rightarrow>
      r1 \<and> r2 \<and> uint (sa_family sa2) = AF_INET \<and>
      sin_addr sa2 = sin_addr sample_ipv4 \<and> sin_port sa2 = sin_port sample_ipv4 \<and>
      unat l2 = sizeof_sockaddr_in) \<and>
   (case addr_unmap_inet6_v4mapped sample_mapped 0 of (r1, sa1, l1) \<Rightarrow>
    case addr_map_inet6_v4mapped sa1 l1 of (r2, sa2, l2) \<Rightarrow>
      r1 \<and> r2 \<and> uint (sa_family sa2) = AF_INET6 \<and>
      sin6_addr sa2 = sin6_addr sample_mapped \<and> sin6_port sa2 = sin6_port sample_mapped \<and>
      unat l2 = sizeof_sockaddr_in6)"
proof -
  have l4: "sizeof_sockaddr_in6 \<le> length sample_ipv4" by code_simp
  have lm: "sizeof_sockaddr_in6 \<le> length sample_mapped" by code_simp
  have h4: "uint (sa_family sample_ipv4) = AF_INET" by code_simp
  have hm: "uint (sa_family sample_mapped) = AF_INET6 \<and>
      IN6_IS_ADDR_V4MAPPED sample_mapped off_sin6_addr" by code_simp
  show ?thesis
    using v4mapped_round_trip [OF l4, where l = 0, THEN conjunct1, THEN mp, OF h4]
      v4mapped_round_trip [OF lm, where l = 0, THEN conjunct2, THEN mp, OF hm]
    by (rule conjI)
qed

subsection \<open>Equality\<close>

text \<open>
  C5. \<open>addr_is_equal\<close> is false when the family tags differ. When they are
  the same and IPv4 (IPv6), it is true exactly when the 4 (16) address bytes
  are identical and, if \<open>compare_ports\<close> is set, the port fields, as they
  are encoded, are identical too. Two records of a common family that is
  neither IPv4 nor IPv6 are never equal.
\<close>

theorem addr_is_equal_iff:
  "addr_is_equal a b compare_ports \<longleftrightarrow>
     sa_family a = sa_family b \<and>
     (uint (sa_family a) = AF_INET \<and> sin_addr a = sin_addr b \<and>
        (compare_ports \<longrightarrow> sin_port a = sin_port b)
      \<or> uint (sa_family a) = AF_INET6 \<and> sin6_addr a = sin6_addr b \<and>
        (compare_ports \<longrightarrow> sin6_port a = sin6_port b))"
  by (auto simp: addr_is_equal_def memcmp_eq_0_iff sin_addr_def sin6_addr_def
      AF_INET_def AF_INET6_def)

theorem addr_is_equal_iff_witness:
  "addr_is_equal sample_ipv4 (snd (addr_set_port sample_ipv4 443)) False \<and>
   \<not> addr_is_equal sample_ipv4 (snd (addr_set_port sample_ipv4 443)) True \<and>
   \<not> addr_is_equal sample_unspec sample_unspec False"
proof -
  let ?b = "snd (addr_set_port sample_ipv4 443)"
  have e1: "sa_family sample_ipv4 = sa_family ?b \<and>
     (uint (sa_family sample_ipv4) = AF_INET \<and> sin_addr sample_ipv4 = sin_addr ?b \<and>
        (False \<longrightarrow> sin_port sample_ipv4 = sin_port ?b)
      \<or> uint (sa_family sample_ipv4) = AF_INET6 \<and> sin6_addr sample_ipv4 = sin6_addr ?b \<and>
        (False \<longrightarrow> sin6_port sample_ipv4 = sin6_port ?b))"
    by code_simp
  have e2: "\<not> (sa_family sample_ipv4 = sa_family ?b \<and>
     (uint (sa_family sample_ipv4) = AF_INET \<and> sin_addr sample_ipv4 = sin_addr ?b \<and>
        (True \<longrightarrow> sin_port sample_ipv4 = sin_port ?b)
      \<or> uint (sa_family sample_ipv4) = AF_INET6 \<and> sin6_addr sample_ipv4 = sin6_addr ?b \<and>
        (True \<longrightarrow> sin6_port sample_ipv4 = sin6_port ?b)))"
    by code_simp
  have e3: "\<not> (sa_family sample_unspec = sa_family sample_unspec \<and>
     (uint (sa_family sample_unspec) = AF_INET \<and> sin_addr sample_unspec = sin_addr sample_unspec \<and>
        (False \<longrightarrow> sin_port sample_unspec = sin_port sample_unspec)
      \<or> uint (sa_family sample_unspec) = AF_INET6 \<and>
        sin6_addr sample_unspec = sin6_addr sample_unspec \<and>
        (False \<longrightarrow> sin6_port sample_unspec = sin6_port sample_unspec)))"
    by code_simp
  have w1: "addr_is_equal sample_ipv4 ?b False"
    using e1 by (rule addr_is_equal_iff [THEN iffD2])
  have w2: "\<not> addr_is_equal sample_ipv4 ?b True"
    using e2 addr_is_equal_iff [of sample_ipv4 ?b True] by blast
  have w3: "\<not> addr_is_equal sample_unspec sample_unspec False"
    using e3 addr_is_equal_iff [of sample_unspec sample_unspec False] by blast
  show ?thesis
    using w1 w2 w3 by (intro conjI)
qed

subsection \<open>Name resolution\<close>




text \<open>
  C6. When the platform resolver fails (\<open>getaddrinfo\<close> returns a nonzero
  code), \<open>addr_resolve\<close> returns \<open>-1\<close> and the caller's array of records
  is unchanged.
\<close>

theorem addr_resolve_failure:
  assumes "fst (getaddrinfo hostname service resolve_hints) \<noteq> 0"
  shows "addr_resolve getaddrinfo hostname service records count = (- 1, records)"
  using assms by (auto simp: addr_resolve_def split: prod.splits)

theorem addr_resolve_failure_witness:
  "fst (sample_getaddrinfo ''nowhere.invalid'' ''80'' resolve_hints) \<noteq> 0 \<and>
   addr_resolve sample_getaddrinfo ''nowhere.invalid'' ''80'' sample_records 2 =
     (- 1, sample_records)"
proof -
  have h: "fst (sample_getaddrinfo ''nowhere.invalid'' ''80'' resolve_hints) \<noteq> 0"
    by (simp add: sample_getaddrinfo_def)
  show ?thesis
    using h addr_resolve_failure [of sample_getaddrinfo "''nowhere.invalid''" "''80''"
        sample_records 2, OF h]
    by (rule conjI)
qed

end
